theory Spec2Isabelle
  imports Main
begin

section \<open>Data model of the usage-accounting tasks (cloudigrade api/tasks.py)\<close>

text \<open>
  The tasks of \<^verbatim>\<open>src/cloudigrade/api/tasks.py\<close> work on Django models. The
  model keeps one table per Django model that the verified functions touch, as the
  fields of a record. Identifiers are numbers, the task identifier Celery hands out is
  a string, timestamps are integers. The \<^verbatim>\<open>date\<close> argument of the Celery task
  is taken after \<^verbatim>\<open>date_parser.parse(date).date()\<close>, as a day number; logging
  calls have no counterpart.
\<close>

type_synonym user_id = nat
type_synonym account_id = nat
type_synonym instance_ref = nat
type_synonym task_id = string
type_synonym date = nat
type_synonym timestamp = int

datatype status = SCHEDULED | COMPLETE | ERROR

record calculation_task =
  task_user_id :: user_id
  task_date :: date
  status :: status

record concurrent_usage =
  peak_count :: nat
  peak_vcpu :: nat
  peak_memory :: nat

datatype event_type = power_on | power_off

record instance_event =
  instance_id :: instance_ref
  event_type :: event_type
  occurred_at :: timestamp

record normalized_run =
  nr_start_time :: timestamp
  nr_end_time :: "timestamp option"
  nr_image_id :: "nat option"
  nr_instance_id :: instance_ref
  nr_instance_type :: string
  nr_instance_memory :: nat
  nr_instance_vcpu :: nat

record run =
  start_time :: timestamp
  end_time :: "timestamp option"
  machineimage_id :: "nat option"
  run_instance_id :: instance_ref
  instance_type :: string
  memory :: nat
  vcpu :: nat

record cloud_account =
  account_ref :: account_id
  account_user_id :: user_id

text \<open>
  Exceptions are values. Only subclasses of Python's \<^verbatim>\<open>Exception\<close> are
  modelled, which is what \<^verbatim>\<open>except Exception\<close> catches.
\<close>

datatype exn =
    LockTimeout
  | TaskDoesNotExist
  | CloudAccountDoesNotExist
  | UserDoesNotExist
  | InstanceDoesNotExist
  | OtherException string

text \<open>
  The persistent store. \<^verbatim>\<open>ConcurrentUsageCalculationTask.task_id\<close> is unique, so
  the task table is a map from the task identifier to the row; the ConcurrentUsage table
  is unique on (user, date).
\<close>

record database =
  users :: "user_id set"
  tasks :: "task_id \<rightharpoonup> calculation_task"
  usages :: "(user_id \<times> date) \<rightharpoonup> concurrent_usage"
  cloud_accounts :: "account_id set"
  instances :: "instance_ref set"
  runs :: "run list"

text \<open>
  What one execution does that the store does not show is written to a trace: lock
  acquisition and release, calls of the collaborators, and writes of a task status.
\<close>

datatype event =
    Acquire "user_id list"
  | Release "user_id list"
  | Schedule date user_id
  | Calculate date user_id
  | Save task_id status
  | UpdateStatus task_id status
  | Recalculate instance_event
  | SaveRun run
  | CalculateFromRuns "run list"
  | Delete account_id

record world =
  store :: database
  held :: "user_id set"
  busy :: "user_id set"
  trace :: "event list"

text \<open>
  The events an execution appended, given the world before and after it.
\<close>

definition emitted :: "world \<Rightarrow> world \<Rightarrow> event list" where
  "emitted w w' = drop (length (trace w)) (trace w')"

subsection \<open>Collaborators imported from api.util\<close>

text \<open>
  \<^verbatim>\<open>calculate_max_concurrent_usage\<close>, \<^verbatim>\<open>schedule_concurrent_calculation_task\<close>,
  \<^verbatim>\<open>recalculate_runs\<close>, \<^verbatim>\<open>normalize_runs\<close> and
  \<^verbatim>\<open>calculate_max_concurrent_usage_from_runs\<close> live in the module
  \<^verbatim>\<open>api.util\<close>, and the queryset \<^verbatim>\<open>delete()\<close> runs Django's deletion
  machinery with its signal handlers. The tasks are verified for every behaviour of these
  collaborators: each is a parameter, any function that returns normally or raises, and
  that leaves the store as it likes in both cases. The Scheduler works on the task
  records only (section 4.6 of the specification). None of them reaches the lock state
  or the trace.
\<close>

record externals =
  calculate_max_concurrent_usage ::
    "date \<Rightarrow> user_id \<Rightarrow> database \<Rightarrow> (exn + unit) \<times> database"
  schedule_concurrent_calculation_task ::
    "date \<Rightarrow> user_id \<Rightarrow> (task_id \<rightharpoonup> calculation_task)
      \<Rightarrow> (exn + unit) \<times> (task_id \<rightharpoonup> calculation_task)"
  recalculate_runs :: "instance_event \<Rightarrow> database \<Rightarrow> (exn + unit) \<times> database"
  normalize_runs :: "instance_event list \<Rightarrow> exn + normalized_run list"
  calculate_max_concurrent_usage_from_runs ::
    "run list \<Rightarrow> database \<Rightarrow> (exn + unit) \<times> database"
  queryset_delete :: "account_id \<Rightarrow> database \<Rightarrow> (exn + unit) \<times> database"

definition call_calculate ::
  "externals \<Rightarrow> date \<Rightarrow> user_id \<Rightarrow> world \<Rightarrow> (exn + unit) \<times> world" where
  "call_calculate ext d user w =
     (case calculate_max_concurrent_usage ext d user (store w) of
        (r, s) \<Rightarrow> (r, w\<lparr>store := s, trace := trace w @ [Calculate d user]\<rparr>))"

definition call_schedule ::
  "externals \<Rightarrow> date \<Rightarrow> user_id \<Rightarrow> world \<Rightarrow> (exn + unit) \<times> world" where
  "call_schedule ext d user w =
     (case schedule_concurrent_calculation_task ext d user (tasks (store w)) of
        (r, ts) \<Rightarrow>
          (r, w\<lparr>store := (store w)\<lparr>tasks := ts\<rparr>, trace := trace w @ [Schedule d user]\<rparr>))"

subsection \<open>Task Lock Manager\<close>

text \<open>
  The context manager \<^verbatim>\<open>lock_task_for_user_ids\<close> is imported from
  \<^verbatim>\<open>util.misc\<close>. Its three parts follow section 4.4 of the
  specification. In this sequential model \<open>busy\<close> holds the users whose lock another
  execution keeps beyond the timeout, and \<open>held\<close> the users whose lock this
  execution holds.
\<close>

text \<open>
  Modelled from the spec: entering \<^verbatim>\<open>util.misc.lock_task_for_user_ids\<close>, which
  is missing. "Acquire blocks the calling execution context until the lock(s) are free
  or a configured timeout elapses (timeout, failure, surfaced to caller, not silently
  ignored)."
\<close>

definition acquire :: "user_id list \<Rightarrow> world \<Rightarrow> exn + world" where
  "acquire user_ids w =
     (if \<exists>u \<in> set user_ids. u \<in> busy w then Inl LockTimeout
      else Inr (w\<lparr>held := held w \<union> set user_ids,
                  trace := trace w @ [Acquire user_ids]\<rparr>))"

text \<open>
  Modelled from the spec: leaving \<^verbatim>\<open>util.misc.lock_task_for_user_ids\<close>, which
  is missing. The locks of the given users are given back.
\<close>

definition release :: "user_id list \<Rightarrow> world \<Rightarrow> world" where
  "release user_ids w =
     w\<lparr>held := held w - set user_ids, trace := trace w @ [Release user_ids]\<rparr>"

text \<open>
  Modelled from the spec: the block \<^verbatim>\<open>with lock_task_for_user_ids(user_ids):\<close>
  around a body, \<^verbatim>\<open>util.misc.lock_task_for_user_ids\<close> being missing. A failed
  acquisition is raised to the caller and the body does not run; otherwise "lock(s) are
  guaranteed released on every exit path, including failure", and the body's result,
  return or exception, is the result of the block. The block is a transaction (section 5:
  "every state transition affecting a user's data is wrapped in a lock-protected
  transaction", and a failure before the commit "leaves the prior, still-consistent state
  intact"): when the body raises, its writes are rolled back and the store is the one the
  block was entered with. The trace keeps what was called.
\<close>

definition lock_task_for_user_ids ::
  "user_id list \<Rightarrow> (world \<Rightarrow> (exn + unit) \<times> world) \<Rightarrow> world \<Rightarrow> (exn + unit) \<times> world" where
  "lock_task_for_user_ids user_ids body w =
     (case acquire user_ids w of
        Inl e \<Rightarrow> (Inl e, w)
      | Inr w1 \<Rightarrow>
          (case body w1 of
             (Inl e, w2) \<Rightarrow> (Inl e, release user_ids (w2\<lparr>store := store w1\<rparr>))
           | (Inr u, w2) \<Rightarrow> (Inr (), release user_ids w2)))"

subsection \<open>calculate_max_concurrent_usage_task\<close>

text \<open>
  \<^verbatim>\<open>calculation_task.save()\<close> writes the row read before, with its new status.
\<close>

definition save_task :: "task_id \<Rightarrow> calculation_task \<Rightarrow> world \<Rightarrow> world" where
  "save_task tid t w =
     w\<lparr>store := (store w)\<lparr>tasks := (tasks (store w))(tid \<mapsto> t)\<rparr>,
       trace := trace w @ [Save tid (status t)]\<rparr>"

text \<open>
  \<^verbatim>\<open>ConcurrentUsageCalculationTask.objects.filter(task_id=task_id).update(status=ERROR)\<close>:
  every row with that task identifier gets the status. The call returns the number of
  rows it matched; matching no row is not an error.
\<close>

definition filter_update_status ::
  "task_id \<Rightarrow> status \<Rightarrow> (task_id \<rightharpoonup> calculation_task) \<Rightarrow> (task_id \<rightharpoonup> calculation_task)" where
  "filter_update_status tid st ts =
     (case ts tid of None \<Rightarrow> ts | Some t \<Rightarrow> ts(tid \<mapsto> t\<lparr>status := st\<rparr>))"

definition record_error :: "task_id \<Rightarrow> world \<Rightarrow> (exn + nat) \<times> world" where
  "record_error tid w =
     (Inr (case tasks (store w) tid of None \<Rightarrow> 0 | Some t \<Rightarrow> 1),
      w\<lparr>store := (store w)\<lparr>tasks := filter_update_status tid ERROR (tasks (store w))\<rparr>,
        trace := trace w @ [UpdateStatus tid ERROR]\<rparr>)"

text \<open>The body of the \<^verbatim>\<open>with\<close> block, lines 596 to 636.\<close>

definition locked_computation ::
  "externals \<Rightarrow> task_id \<Rightarrow> date \<Rightarrow> user_id \<Rightarrow> world \<Rightarrow> (exn + unit) \<times> world" where
  "locked_computation ext tid d user w =
     (case tasks (store w) tid of
        None \<Rightarrow> call_schedule ext d user w
      | Some calculation_task \<Rightarrow>
          if status calculation_task \<noteq> SCHEDULED then (Inr (), w)
          else (case call_calculate ext d user w of
                  (Inl e, w1) \<Rightarrow> (Inl e, w1)
                | (Inr u, w1) \<Rightarrow>
                    (Inr (), save_task tid (calculation_task\<lparr>status := COMPLETE\<rparr>) w1)))"

text \<open>
  The task, lines 585 to 646: the early exit for a missing user, then the
  \<^verbatim>\<open>try\<close> around the locked block, whose handler records ERROR and raises the
  exception it caught. The handler runs after the block has been left. An exception
  raised by the handler's own update would be the one that leaves the task.
\<close>

definition calculate_max_concurrent_usage_task ::
  "externals \<Rightarrow> task_id \<Rightarrow> date \<Rightarrow> user_id \<Rightarrow> world \<Rightarrow> (exn + unit) \<times> world" where
  "calculate_max_concurrent_usage_task ext tid d user w =
     (if user \<notin> users (store w) then (Inr (), w)
      else (case lock_task_for_user_ids [user] (locked_computation ext tid d user) w of
              (Inl unknown_exception, w') \<Rightarrow>
                (case record_error tid w' of
                   (Inl update_exception, w'') \<Rightarrow> (Inl update_exception, w'')
                 | (Inr rows, w'') \<Rightarrow> (Inl unknown_exception, w''))
            | (Inr u, w') \<Rightarrow> (Inr (), w')))"

subsection \<open>process_instance_event\<close>

text \<open>
  The three Django \<^verbatim>\<open>Q\<close> objects of lines 431 to 433, as predicates on a Run
  row. A comparison with a NULL \<^verbatim>\<open>end_time\<close> selects no row.
\<close>

definition after_run :: "timestamp \<Rightarrow> run \<Rightarrow> bool" where
  "after_run t r = (t < start_time r)"

definition during_run :: "timestamp \<Rightarrow> run \<Rightarrow> bool" where
  "during_run t r =
     (start_time r \<le> t \<and> (case end_time r of None \<Rightarrow> False | Some e \<Rightarrow> t < e))"

definition during_run_no_end :: "timestamp \<Rightarrow> run \<Rightarrow> bool" where
  "during_run_no_end t r = (start_time r \<le> t \<and> end_time r = None)"

definition filters :: "timestamp \<Rightarrow> run \<Rightarrow> bool" where
  "filters t r = (after_run t r \<or> during_run t r \<or> during_run_no_end t r)"

definition run_of :: "normalized_run \<Rightarrow> run" where
  "run_of n =
     \<lparr>start_time = nr_start_time n, end_time = nr_end_time n,
      machineimage_id = nr_image_id n, run_instance_id = nr_instance_id n,
      instance_type = nr_instance_type n, memory = nr_instance_memory n,
      vcpu = nr_instance_vcpu n\<rparr>"

text \<open>The loop of lines 443 to 457: each normalized run is saved as a new Run row.\<close>

fun save_runs :: "normalized_run list \<Rightarrow> run list \<Rightarrow> world \<Rightarrow> run list \<times> world" where
  "save_runs [] acc w = (acc, w)"
| "save_runs (n # ns) acc w =
     save_runs ns (acc @ [run_of n])
       (w\<lparr>store := (store w)\<lparr>runs := runs (store w) @ [run_of n]\<rparr>,
          trace := trace w @ [SaveRun (run_of n)]\<rparr>)"

definition call_recalculate ::
  "externals \<Rightarrow> instance_event \<Rightarrow> world \<Rightarrow> (exn + unit) \<times> world" where
  "call_recalculate ext ev w =
     (case recalculate_runs ext ev (store w) of
        (r, s) \<Rightarrow> (r, w\<lparr>store := s, trace := trace w @ [Recalculate ev]\<rparr>))"

definition call_calculate_from_runs ::
  "externals \<Rightarrow> run list \<Rightarrow> world \<Rightarrow> (exn + unit) \<times> world" where
  "call_calculate_from_runs ext rs w =
     (case calculate_max_concurrent_usage_from_runs ext rs (store w) of
        (r, s) \<Rightarrow> (r, w\<lparr>store := s, trace := trace w @ [CalculateFromRuns rs]\<rparr>))"

definition process_instance_event ::
  "externals \<Rightarrow> instance_event \<Rightarrow> world \<Rightarrow> (exn + unit) \<times> world" where
  "process_instance_event ext ev w =
     (if instance_id ev \<notin> instances (store w) then (Inl InstanceDoesNotExist, w)
      else if \<exists>r \<in> set (runs (store w)).
                run_instance_id r = instance_id ev \<and> filters (occurred_at ev) r
        then call_recalculate ext ev w
      else if event_type ev = power_on then
        (case normalize_runs ext [ev] of
           Inl e \<Rightarrow> (Inl e, w)
         | Inr normalized_runs \<Rightarrow>
             (case save_runs normalized_runs [] w of
                (rs, w1) \<Rightarrow> call_calculate_from_runs ext rs w1))
      else (Inr (), w))"

subsection \<open>_delete_cloud_accounts\<close>

definition call_queryset_delete ::
  "externals \<Rightarrow> account_id \<Rightarrow> world \<Rightarrow> (exn + unit) \<times> world" where
  "call_queryset_delete ext aid w =
     (case queryset_delete ext aid (store w) of
        (r, s) \<Rightarrow> (r, w\<lparr>store := s, trace := trace w @ [Delete aid]\<rparr>))"

text \<open>
  Lines 290 to 296: \<^verbatim>\<open>refresh_from_db\<close> raises \<^verbatim>\<open>CloudAccount.DoesNotExist\<close>
  for a row that is gone; the handler catches that exception class and no other.
\<close>

definition delete_one :: "externals \<Rightarrow> cloud_account \<Rightarrow> world \<Rightarrow> (exn + unit) \<times> world" where
  "delete_one ext ca w =
     (case (if account_ref ca \<notin> cloud_accounts (store w)
              then (Inl CloudAccountDoesNotExist, w)
            else call_queryset_delete ext (account_ref ca) w) of
        (Inl e, w1) \<Rightarrow> if e = CloudAccountDoesNotExist then (Inr (), w1) else (Inl e, w1)
      | (Inr u, w1) \<Rightarrow> (Inr (), w1))"

text \<open>
  The loop of lines 272 to 296. The argument of the lock, \<^verbatim>\<open>cloud_account.user.id\<close>,
  loads the User row the account refers to, and raises \<^verbatim>\<open>User.DoesNotExist\<close>
  when that row is gone, before the lock is asked for. An exception ends the loop.
\<close>

fun delete_cloud_accounts ::
  "externals \<Rightarrow> cloud_account list \<Rightarrow> world \<Rightarrow> (exn + unit) \<times> world" where
  "delete_cloud_accounts ext [] w = (Inr (), w)"
| "delete_cloud_accounts ext (ca # cas) w =
     (if account_user_id ca \<notin> users (store w) then (Inl UserDoesNotExist, w)
      else (case lock_task_for_user_ids [account_user_id ca] (delete_one ext ca) w of
              (Inl e, w1) \<Rightarrow> (Inl e, w1)
            | (Inr u, w1) \<Rightarrow> delete_cloud_accounts ext cas w1))"

subsection \<open>Lock events of a trace\<close>

text \<open>
  A trace is balanced when its lock events pair up: every \<open>Acquire\<close> happens while
  no lock is held, the next lock event after it is the \<open>Release\<close> of the same users,
  and no lock is held at the end. The first argument is the lock currently held, if any.
\<close>

fun balanced :: "user_id list option \<Rightarrow> event list \<Rightarrow> bool" where
  "balanced cur [] = (cur = None)"
| "balanced cur (Acquire us # es) = (cur = None \<and> balanced (Some us) es)"
| "balanced cur (Release us # es) = (cur = Some us \<and> balanced None es)"
| "balanced cur (e # es) = balanced cur es"

subsection \<open>Repeated delivery\<close>

text \<open>
  The task queue delivers at least once, so the same task identifier may be executed
  again. Each delivery comes with its own collaborators' behaviour, its arguments, and
  the set of users whose lock is taken by others at that moment.
\<close>

fun deliveries ::
  "task_id \<Rightarrow> (externals \<times> date \<times> user_id \<times> user_id set) list \<Rightarrow> world \<Rightarrow> world" where
  "deliveries tid [] w = w"
| "deliveries tid ((ext, d, user, b) # rest) w =
     deliveries tid rest
       (snd (calculate_max_concurrent_usage_task ext tid d user (w\<lparr>busy := b\<rparr>)))"

subsection \<open>Concrete stores and collaborators for evaluation\<close>

text \<open>
  A small world: user 1 owns cloud account 7 and instance 3, and one calculation task
  \<open>''t1''\<close> is scheduled for user 1 and day 5.
\<close>

definition example_store :: database where
  "example_store =
     \<lparr>users = {1},
      tasks = [''t1'' \<mapsto> \<lparr>task_user_id = 1, task_date = 5, status = SCHEDULED\<rparr>],
      usages = Map.empty,
      cloud_accounts = {7},
      instances = {3},
      runs = []\<rparr>"

definition example_world :: world where
  "example_world = \<lparr>store = example_store, held = {}, busy = {}, trace = []\<rparr>"

text \<open>
  Collaborators that succeed: the calculator writes a snapshot for its key, the scheduler
  adds a SCHEDULED record under a new identifier, the recalculator removes the Runs of
  the event's instance that start at or after the event, the normalizer opens one Run per
  \<open>power_on\<close> event, and the queryset delete removes the account.
\<close>

definition example_externals :: externals where
  "example_externals =
     \<lparr>calculate_max_concurrent_usage =
        (\<lambda>d user s. (Inr (),
           s\<lparr>usages := (usages s)((user, d) \<mapsto>
               \<lparr>peak_count = 1, peak_vcpu = 2, peak_memory = 4\<rparr>)\<rparr>)),
      schedule_concurrent_calculation_task =
        (\<lambda>d user ts. (Inr (),
           ts(''t2'' \<mapsto> \<lparr>task_user_id = user, task_date = d, status = SCHEDULED\<rparr>))),
      recalculate_runs =
        (\<lambda>ev s. (Inr (),
           s\<lparr>runs := filter (\<lambda>r. \<not> (run_instance_id r = instance_id ev \<and>
                                       occurred_at ev \<le> start_time r)) (runs s)\<rparr>)),
      normalize_runs =
        (\<lambda>evs. Inr (map (\<lambda>ev.
           \<lparr>nr_start_time = occurred_at ev, nr_end_time = None, nr_image_id = None,
            nr_instance_id = instance_id ev, nr_instance_type = ''t2.micro'',
            nr_instance_memory = 4, nr_instance_vcpu = 2\<rparr>)
           (filter (\<lambda>ev. event_type ev = power_on) evs))),
      calculate_max_concurrent_usage_from_runs = (\<lambda>rs s. (Inr (), s)),
      queryset_delete =
        (\<lambda>aid s. (Inr (), s\<lparr>cloud_accounts := cloud_accounts s - {aid}\<rparr>))\<rparr>"

text \<open>
  Collaborators that fail: the calculator raises after it has written a snapshot, the
  scheduler raises without having written anything, and the queryset delete raises after
  it has removed the account.
\<close>

definition failing_externals :: externals where
  "failing_externals =
     example_externals
       \<lparr>calculate_max_concurrent_usage :=
          (\<lambda>d user s. (Inl (OtherException ''boom''),
             s\<lparr>usages := (usages s)((user, d) \<mapsto>
                 \<lparr>peak_count = 9, peak_vcpu = 9, peak_memory = 9\<rparr>)\<rparr>)),
        schedule_concurrent_calculation_task :=
          (\<lambda>d user ts. (Inl (OtherException ''broker down''), ts)),
        queryset_delete :=
          (\<lambda>aid s. (Inl (OtherException ''cleanup failed''),
             s\<lparr>cloud_accounts := cloud_accounts s - {aid}\<rparr>))\<rparr>"

text \<open>The same world while another execution keeps the lock of user 1.\<close>

definition contended_world :: world where
  "contended_world = example_world\<lparr>busy := {1}\<rparr>"

text \<open>Task \<open>''t1''\<close> already COMPLETE, and the lock of user 1 taken by another execution.\<close>

definition finished_contended_world :: world where
  "finished_contended_world =
     \<lparr>store = example_store
        \<lparr>tasks := [''t1'' \<mapsto> \<lparr>task_user_id = 1, task_date = 5, status = COMPLETE\<rparr>]\<rparr>,
      held = {}, busy = {1}, trace = []\<rparr>"

text \<open>
  A store where instance 3 has one closed Run from 100 to 200. A world with a second
  user and two cloud accounts to delete, the first of user 2 and the second of user 1;
  the same world while another execution keeps the lock of user 1.
\<close>

definition backfill_store :: database where
  "backfill_store =
     example_store
       \<lparr>runs := [\<lparr>start_time = 100, end_time = Some 200, machineimage_id = None,
                  run_instance_id = 3, instance_type = ''t2.micro'', memory = 4,
                  vcpu = 2\<rparr>]\<rparr>"

definition backfill_world :: world where
  "backfill_world = example_world\<lparr>store := backfill_store\<rparr>"

definition two_accounts :: "cloud_account list" where
  "two_accounts =
     [\<lparr>account_ref = 8, account_user_id = 2\<rparr>, \<lparr>account_ref = 7, account_user_id = 1\<rparr>]"

definition two_user_world :: world where
  "two_user_world =
     example_world\<lparr>store := example_store\<lparr>users := {1, 2}, cloud_accounts := {7, 8}\<rparr>\<rparr>"

definition two_user_contended_world :: world where
  "two_user_contended_world = two_user_world\<lparr>busy := {1}\<rparr>"

section \<open>Properties\<close>

lemmas task_defs =
  calculate_max_concurrent_usage_task_def lock_task_for_user_ids_def acquire_def release_def
  locked_computation_def call_schedule_def call_calculate_def save_task_def record_error_def
  filter_update_status_def emitted_def

lemmas example_defs =
  example_world_def example_store_def example_externals_def failing_externals_def
  contended_world_def finished_contended_world_def
  backfill_store_def backfill_world_def two_accounts_def two_user_world_def
  two_user_contended_world_def

lemmas delete_defs =
  delete_one_def call_queryset_delete_def lock_task_for_user_ids_def acquire_def release_def

subsection \<open>The calculation task state machine\<close>

text \<open>
  C1. If an execution of the task saves the status COMPLETE, then the user existed, the
  task record was found under the task identifier with status SCHEDULED, the lock of the
  user was acquired, and \<^verbatim>\<open>calculate_max_concurrent_usage\<close> returned without
  raising. The execution then consists of exactly four steps: the lock is acquired, the
  usage is computed, COMPLETE is saved, the lock is released; so the computation and the
  save both happen while the lock is held. The task returns normally and the record is
  COMPLETE in the final store.
\<close>

theorem complete_only_after_checks:
  assumes "Save tid COMPLETE \<in>
            set (emitted w (snd (calculate_max_concurrent_usage_task ext tid d user w)))"
  shows "user \<in> users (store w) \<and>
         (\<exists>t. tasks (store w) tid = Some t \<and> status t = SCHEDULED) \<and>
         user \<notin> busy w \<and>
         fst (calculate_max_concurrent_usage ext d user (store w)) = Inr () \<and>
         fst (calculate_max_concurrent_usage_task ext tid d user w) = Inr () \<and>
         emitted w (snd (calculate_max_concurrent_usage_task ext tid d user w)) =
           [Acquire [user], Calculate d user, Save tid COMPLETE, Release [user]] \<and>
         map_option status
           (tasks (store (snd (calculate_max_concurrent_usage_task ext tid d user w))) tid) =
           Some COMPLETE"
  using assms
  by (auto simp: task_defs split: prod.splits sum.splits option.splits if_splits)

theorem complete_only_after_checks_witness:
  "Save ''t1'' COMPLETE \<in>
     set (emitted example_world
       (snd (calculate_max_concurrent_usage_task example_externals ''t1'' 5 1 example_world))) \<and>
   1 \<in> users (store example_world) \<and>
   map_option status (tasks (store example_world) ''t1'') = Some SCHEDULED \<and>
   1 \<notin> busy example_world \<and>
   emitted example_world
       (snd (calculate_max_concurrent_usage_task example_externals ''t1'' 5 1 example_world)) =
     [Acquire [1], Calculate 5 1, Save ''t1'' COMPLETE, Release [1]]"
proof -
  have h: "Save ''t1'' COMPLETE \<in>
     set (emitted example_world
       (snd (calculate_max_concurrent_usage_task example_externals ''t1'' 5 1 example_world)))"
    by (simp add: task_defs example_defs)
  from complete_only_after_checks [OF h] h show ?thesis
    by (auto simp: example_defs)
qed

text \<open>
  C2. When, with the lock acquired, the scheduler call (task record missing) or the usage
  computation (task record SCHEDULED) raises an exception \<open>e\<close>, the task raises that
  same \<open>e\<close>. The execution is: acquire the lock, the failing call, release the lock,
  the ERROR update. The writes of the failing call are rolled back with the block, so
  the final store is the initial one with the status of the task record set to ERROR;
  when there was no record under the task identifier, the update has no row to mark and
  the store is the initial one.
\<close>

theorem failure_recorded_and_reraised:
  assumes "user \<in> users (store w)" and "user \<notin> busy w"
    and "(tasks (store w) tid = None \<and>
            fst (schedule_concurrent_calculation_task ext d user (tasks (store w))) = Inl e) \<or>
         (tasks (store w) tid = Some t \<and> status t = SCHEDULED \<and>
            fst (calculate_max_concurrent_usage ext d user (store w)) = Inl e)"
  shows "fst (calculate_max_concurrent_usage_task ext tid d user w) = Inl e \<and>
         (tasks (store w) tid = Some t \<longrightarrow>
            store (snd (calculate_max_concurrent_usage_task ext tid d user w)) =
              (store w)\<lparr>tasks := (tasks (store w))(tid \<mapsto> t\<lparr>status := ERROR\<rparr>)\<rparr>) \<and>
         (tasks (store w) tid = None \<longrightarrow>
            store (snd (calculate_max_concurrent_usage_task ext tid d user w)) = store w) \<and>
         emitted w (snd (calculate_max_concurrent_usage_task ext tid d user w)) =
           [Acquire [user],
            (if tasks (store w) tid = None then Schedule d user else Calculate d user),
            Release [user], UpdateStatus tid ERROR]"
  using assms
  by (auto simp: task_defs split: prod.splits sum.splits option.splits if_splits)

theorem failure_recorded_and_reraised_witness:
  "calculate_max_concurrent_usage failing_externals 5 1 (store example_world) =
     (Inl (OtherException ''boom''),
      example_store\<lparr>usages :=
        [(1, 5) \<mapsto> \<lparr>peak_count = 9, peak_vcpu = 9, peak_memory = 9\<rparr>]\<rparr>) \<and>
   fst (calculate_max_concurrent_usage_task failing_externals ''t1'' 5 1 example_world)
     = Inl (OtherException ''boom'') \<and>
   store (snd (calculate_max_concurrent_usage_task failing_externals ''t1'' 5 1 example_world))
     = example_store
         \<lparr>tasks := [''t1'' \<mapsto> \<lparr>task_user_id = 1, task_date = 5, status = ERROR\<rparr>]\<rparr> \<and>
   emitted example_world
     (snd (calculate_max_concurrent_usage_task failing_externals ''t1'' 5 1 example_world))
     = [Acquire [1], Calculate 5 1, Release [1], UpdateStatus ''t1'' ERROR]"
proof -
  have a: "1 \<in> users (store example_world)" "1 \<notin> busy example_world"
    by (simp_all add: example_defs)
  have b: "(tasks (store example_world) ''t1'' = None \<and>
            fst (schedule_concurrent_calculation_task failing_externals 5 1
              (tasks (store example_world))) = Inl (OtherException ''boom'')) \<or>
         (tasks (store example_world) ''t1''
            = Some \<lparr>task_user_id = 1, task_date = 5, status = SCHEDULED\<rparr> \<and>
          status \<lparr>task_user_id = 1, task_date = 5, status = SCHEDULED\<rparr> = SCHEDULED \<and>
          fst (calculate_max_concurrent_usage failing_externals 5 1 (store example_world))
            = Inl (OtherException ''boom''))"
    by (simp add: example_defs)
  from failure_recorded_and_reraised [OF a b] show ?thesis
    by (simp add: example_defs)
qed

text \<open>
  C3, as stated, fails. With the user present and the task record missing, the worker
  does not reach the scheduler when acquiring the lock times out: the task raises
  \<open>LockTimeout\<close> and the only thing it did is the ERROR update. And when the scheduler
  call raises, the task raises that exception instead of returning.
\<close>

theorem missing_record_counterexample:
  "1 \<in> users (store contended_world) \<and> tasks (store contended_world) ''t9'' = None \<and>
   calculate_max_concurrent_usage_task example_externals ''t9'' 5 1 contended_world
     = (Inl LockTimeout, contended_world\<lparr>trace := [UpdateStatus ''t9'' ERROR]\<rparr>) \<and>
   1 \<in> users (store example_world) \<and> tasks (store example_world) ''t9'' = None \<and>
   fst (calculate_max_concurrent_usage_task failing_externals ''t9'' 5 1 example_world)
     = Inl (OtherException ''broker down'')"
  by (simp add: task_defs example_defs)

text \<open>
  C3, amended. When the user exists, the lock is acquired and no task record is found
  under the task identifier, the worker calls
  \<^verbatim>\<open>schedule_concurrent_calculation_task\<close> once, with the same date and user,
  between acquiring and releasing the lock, and ends the way that call ends: it returns
  if the call returns, and the store is then the one the scheduler left. No usage
  computation takes place and the ConcurrentUsage table is the one the execution
  started with.
\<close>

theorem missing_record_reschedules:
  assumes "user \<in> users (store w)" and "user \<notin> busy w" and "tasks (store w) tid = None"
  shows "fst (calculate_max_concurrent_usage_task ext tid d user w) =
           fst (schedule_concurrent_calculation_task ext d user (tasks (store w))) \<and>
         emitted w (snd (calculate_max_concurrent_usage_task ext tid d user w)) =
           [Acquire [user], Schedule d user, Release [user]] @
           (case fst (schedule_concurrent_calculation_task ext d user (tasks (store w))) of
              Inl e \<Rightarrow> [UpdateStatus tid ERROR] | Inr u \<Rightarrow> []) \<and>
         usages (store (snd (calculate_max_concurrent_usage_task ext tid d user w))) =
           usages (store w) \<and>
         (fst (schedule_concurrent_calculation_task ext d user (tasks (store w))) = Inr () \<longrightarrow>
            store (snd (calculate_max_concurrent_usage_task ext tid d user w)) =
              (store w)\<lparr>tasks :=
                 snd (schedule_concurrent_calculation_task ext d user (tasks (store w)))\<rparr>)"
  using assms
  by (auto simp: task_defs split: prod.splits sum.splits option.splits if_splits)

theorem missing_record_reschedules_witness:
  "fst (calculate_max_concurrent_usage_task example_externals ''t9'' 5 1 example_world) = Inr () \<and>
   emitted example_world
     (snd (calculate_max_concurrent_usage_task example_externals ''t9'' 5 1 example_world)) =
     [Acquire [1], Schedule 5 1, Release [1]] \<and>
   map_option status
     (tasks (store (snd (calculate_max_concurrent_usage_task example_externals ''t9'' 5 1
        example_world))) ''t2'') = Some SCHEDULED \<and>
   usages (store (snd (calculate_max_concurrent_usage_task example_externals ''t9'' 5 1
        example_world))) = usages (store example_world)"
proof -
  have a: "1 \<in> users (store example_world)" "1 \<notin> busy example_world"
    "tasks (store example_world) ''t9'' = None"
    by (simp_all add: example_defs)
  from missing_record_reschedules [OF a, of example_externals 5] show ?thesis
    by (simp add: example_defs)
qed

text \<open>
  C4, as stated, fails. Task \<open>''t1''\<close> is COMPLETE and its user exists; the lock is
  taken by another execution. The task raises \<open>LockTimeout\<close>, and its handler has
  changed the status of the record from COMPLETE to ERROR.
\<close>

theorem not_scheduled_counterexample:
  "1 \<in> users (store finished_contended_world) \<and>
   map_option status (tasks (store finished_contended_world) ''t1'') = Some COMPLETE \<and>
   fst (calculate_max_concurrent_usage_task example_externals ''t1'' 5 1
         finished_contended_world) = Inl LockTimeout \<and>
   map_option status
     (tasks (store (snd (calculate_max_concurrent_usage_task example_externals ''t1'' 5 1
        finished_contended_world))) ''t1'') = Some ERROR"
  by (simp add: task_defs example_defs)

text \<open>
  C4, amended. When the task record exists with a status other than SCHEDULED and
  acquiring the lock of the user does not time out, the task returns normally and the
  store is untouched: no usage is computed and the record keeps its status. All the
  execution does is acquire and release the lock (and not even that when the user is
  gone).
\<close>

theorem not_scheduled_is_skipped:
  assumes "tasks (store w) tid = Some t" and "status t \<noteq> SCHEDULED" and "user \<notin> busy w"
  shows "fst (calculate_max_concurrent_usage_task ext tid d user w) = Inr () \<and>
         store (snd (calculate_max_concurrent_usage_task ext tid d user w)) = store w \<and>
         emitted w (snd (calculate_max_concurrent_usage_task ext tid d user w)) =
           (if user \<in> users (store w) then [Acquire [user], Release [user]] else [])"
  using assms
  by (auto simp: task_defs split: prod.splits sum.splits option.splits if_splits)

theorem not_scheduled_is_skipped_witness:
  "calculate_max_concurrent_usage_task example_externals ''t1'' 5 1
     (finished_contended_world\<lparr>busy := {}\<rparr>) =
   (Inr (), finished_contended_world\<lparr>busy := {}, trace := [Acquire [1], Release [1]]\<rparr>)"
proof -
  have a: "tasks (store (finished_contended_world\<lparr>busy := {}\<rparr>)) ''t1'' =
      Some \<lparr>task_user_id = 1, task_date = 5, status = COMPLETE\<rparr>"
    "status \<lparr>task_user_id = 1, task_date = 5, status = COMPLETE\<rparr> \<noteq> SCHEDULED"
    "1 \<notin> busy (finished_contended_world\<lparr>busy := {}\<rparr>)"
    by (simp_all add: example_defs)
  from not_scheduled_is_skipped [OF a, of example_externals 5] show ?thesis
    by (simp add: task_defs example_defs)
qed

text \<open>
  C5. When the referenced user does not exist, the task returns at once: the result is a
  normal return and the world is the one it started in, so no lock was acquired, no
  collaborator was called, and no task record or ConcurrentUsage snapshot was written.
\<close>

theorem missing_user_returns_untouched:
  "user \<notin> users (store w) \<Longrightarrow>
     calculate_max_concurrent_usage_task ext tid d user w = (Inr (), w)"
  by (simp add: calculate_max_concurrent_usage_task_def)

theorem missing_user_returns_untouched_witness:
  "2 \<notin> users (store example_world) \<and>
   calculate_max_concurrent_usage_task example_externals ''t1'' 5 2 example_world
     = (Inr (), example_world)"
proof -
  have a: "2 \<notin> users (store example_world)" by (simp add: example_defs)
  from missing_user_returns_untouched [OF a] a show ?thesis by simp
qed

text \<open>
  C6 does not hold of the code. The first delivery of \<open>''t1''\<close> completes the task.
  A second delivery of the same task identifier, arriving while another execution keeps
  the lock of the user, times out on the lock; its handler (lines 643 to 645) updates
  the status without looking at it, and the record that was COMPLETE is ERROR. That
  update is all the second delivery does. The path that finds a record no longer
  SCHEDULED (lines 611 to 625) leaves it alone.
\<close>

theorem redelivery_overwrites_complete:
  "map_option status
     (tasks (store (deliveries ''t1'' [(example_externals, 5, 1, {})] example_world)) ''t1'')
     = Some COMPLETE \<and>
   map_option status
     (tasks (store (deliveries ''t1'' [(example_externals, 5, 1, {}), (example_externals, 5, 1, {1})]
        example_world)) ''t1'')
     = Some ERROR \<and>
   emitted (deliveries ''t1'' [(example_externals, 5, 1, {})] example_world)
     (deliveries ''t1'' [(example_externals, 5, 1, {}), (example_externals, 5, 1, {1})]
        example_world)
     = [UpdateStatus ''t1'' ERROR]"
  by (simp add: task_defs example_defs)

subsection \<open>Event processing\<close>

text \<open>The loop that saves the normalized runs, in closed form.\<close>

lemma save_runs_eq:
  "save_runs ns acc w =
     (acc @ map run_of ns,
      w\<lparr>store := (store w)\<lparr>runs := runs (store w) @ map run_of ns\<rparr>,
        trace := trace w @ map (\<lambda>n. SaveRun (run_of n)) ns\<rparr>)"
  by (induction ns arbitrary: acc w) simp_all

text \<open>
  C7. For an event of a persisted instance, \<^verbatim>\<open>recalculate_runs\<close> is called if
  and only if some Run of the event's instance starts after the event, or starts at or
  before it and ends after it, or starts at or before it and has no end. In that case
  the outcome of \<^verbatim>\<open>process_instance_event\<close> is the outcome of
  \<^verbatim>\<open>recalculate_runs\<close> on the event and the store: its result, return or
  exception, and the store it leaves. Otherwise the recalculator plays no part and the
  function goes on to the \<^verbatim>\<open>power_on\<close> branch: a \<open>power_on\<close> event is handed
  to \<^verbatim>\<open>normalize_runs\<close>, each normalized run is saved as a new Run, and the
  outcome is that of \<^verbatim>\<open>calculate_max_concurrent_usage_from_runs\<close> on those runs
  and the store holding them; any other event changes nothing.
\<close>

theorem recalculation_trigger:
  assumes "instance_id ev \<in> instances (store w)"
  shows "(Recalculate ev \<in> set (emitted w (snd (process_instance_event ext ev w)))) =
           (\<exists>r \<in> set (runs (store w)). run_instance_id r = instance_id ev \<and>
              (occurred_at ev < start_time r \<or>
               (start_time r \<le> occurred_at ev \<and> (\<exists>e. end_time r = Some e \<and> occurred_at ev < e)) \<or>
               (start_time r \<le> occurred_at ev \<and> end_time r = None))) \<and>
         ((\<exists>r \<in> set (runs (store w)). run_instance_id r = instance_id ev \<and>
              (occurred_at ev < start_time r \<or>
               (start_time r \<le> occurred_at ev \<and> (\<exists>e. end_time r = Some e \<and> occurred_at ev < e)) \<or>
               (start_time r \<le> occurred_at ev \<and> end_time r = None))) \<longrightarrow>
            process_instance_event ext ev w =
              (fst (recalculate_runs ext ev (store w)),
               w\<lparr>store := snd (recalculate_runs ext ev (store w)),
                 trace := trace w @ [Recalculate ev]\<rparr>)) \<and>
         (\<not> (\<exists>r \<in> set (runs (store w)). run_instance_id r = instance_id ev \<and>
              (occurred_at ev < start_time r \<or>
               (start_time r \<le> occurred_at ev \<and> (\<exists>e. end_time r = Some e \<and> occurred_at ev < e)) \<or>
               (start_time r \<le> occurred_at ev \<and> end_time r = None))) \<longrightarrow>
            process_instance_event ext ev w =
              (if event_type ev = power_on then
                 (case normalize_runs ext [ev] of
                    Inl e \<Rightarrow> (Inl e, w)
                  | Inr ns \<Rightarrow>
                      (fst (calculate_max_concurrent_usage_from_runs ext (map run_of ns)
                              ((store w)\<lparr>runs := runs (store w) @ map run_of ns\<rparr>)),
                       w\<lparr>store :=
                           snd (calculate_max_concurrent_usage_from_runs ext (map run_of ns)
                                  ((store w)\<lparr>runs := runs (store w) @ map run_of ns\<rparr>)),
                         trace := trace w @ map (\<lambda>n. SaveRun (run_of n)) ns @
                                    [CalculateFromRuns (map run_of ns)]\<rparr>))
               else (Inr (), w)))"
proof -
  let ?m = "\<exists>r \<in> set (runs (store w)). run_instance_id r = instance_id ev \<and>
              (occurred_at ev < start_time r \<or>
               (start_time r \<le> occurred_at ev \<and> (\<exists>e. end_time r = Some e \<and> occurred_at ev < e)) \<or>
               (start_time r \<le> occurred_at ev \<and> end_time r = None))"
  let ?recalc = "(fst (recalculate_runs ext ev (store w)),
               w\<lparr>store := snd (recalculate_runs ext ev (store w)),
                 trace := trace w @ [Recalculate ev]\<rparr>)"
  let ?fresh = "if event_type ev = power_on then
                 (case normalize_runs ext [ev] of
                    Inl e \<Rightarrow> (Inl e, w)
                  | Inr ns \<Rightarrow>
                      (fst (calculate_max_concurrent_usage_from_runs ext (map run_of ns)
                              ((store w)\<lparr>runs := runs (store w) @ map run_of ns\<rparr>)),
                       w\<lparr>store :=
                           snd (calculate_max_concurrent_usage_from_runs ext (map run_of ns)
                                  ((store w)\<lparr>runs := runs (store w) @ map run_of ns\<rparr>)),
                         trace := trace w @ map (\<lambda>n. SaveRun (run_of n)) ns @
                                    [CalculateFromRuns (map run_of ns)]\<rparr>))
               else (Inr (), w)"
  have m: "?m = (\<exists>r \<in> set (runs (store w)).
                run_instance_id r = instance_id ev \<and> filters (occurred_at ev) r)"
    by (auto simp: filters_def after_run_def during_run_def during_run_no_end_def
          split: option.splits)
  show ?thesis
  proof (cases ?m)
    case True
    then have p: "process_instance_event ext ev w = ?recalc"
      using assms m
      by (simp add: process_instance_event_def call_recalculate_def split: prod.splits)
    have "Recalculate ev \<in> set (emitted w (snd ?recalc))"
      by (simp add: emitted_def)
    with p have c1: "(Recalculate ev \<in> set (emitted w (snd (process_instance_event ext ev w))))
        = ?m" using True by simp
    have c2: "?m \<longrightarrow> process_instance_event ext ev w = ?recalc"
      using p by blast
    have c3: "\<not> ?m \<longrightarrow> process_instance_event ext ev w = ?fresh"
      using True by blast
    from c1 c2 c3 show ?thesis by blast
  next
    case False
    then have p: "process_instance_event ext ev w = ?fresh"
      using assms m
      by (auto simp: process_instance_event_def save_runs_eq call_calculate_from_runs_def
            split: sum.splits prod.splits)
    have "Recalculate ev \<notin> set (emitted w (snd (process_instance_event ext ev w)))"
      unfolding p
      by (auto simp: emitted_def split: prod.splits sum.splits)
    then have c1: "(Recalculate ev \<in> set (emitted w (snd (process_instance_event ext ev w))))
        = ?m" using False by blast
    have c2: "?m \<longrightarrow> process_instance_event ext ev w = ?recalc"
      using False by blast
    have c3: "\<not> ?m \<longrightarrow> process_instance_event ext ev w = ?fresh"
      using p by blast
    from c1 c2 c3 show ?thesis by blast
  qed
qed

theorem recalculation_trigger_witness:
  "3 \<in> instances (store backfill_world) \<and>
   snd (recalculate_runs example_externals
          \<lparr>instance_id = 3, event_type = power_on, occurred_at = 50\<rparr> (store backfill_world))
     = example_store \<and>
   process_instance_event example_externals
        \<lparr>instance_id = 3, event_type = power_on, occurred_at = 50\<rparr> backfill_world
     = (Inr (), example_world
          \<lparr>trace := [Recalculate \<lparr>instance_id = 3, event_type = power_on, occurred_at = 50\<rparr>]\<rparr>) \<and>
   process_instance_event example_externals
        \<lparr>instance_id = 3, event_type = power_on, occurred_at = 200\<rparr> backfill_world
     = (Inr (), backfill_world
          \<lparr>store := backfill_store
             \<lparr>runs := runs backfill_store @
                [\<lparr>start_time = 200, end_time = None, machineimage_id = None,
                  run_instance_id = 3, instance_type = ''t2.micro'', memory = 4, vcpu = 2\<rparr>]\<rparr>,
           trace :=
             [SaveRun \<lparr>start_time = 200, end_time = None, machineimage_id = None,
                run_instance_id = 3, instance_type = ''t2.micro'', memory = 4, vcpu = 2\<rparr>,
              CalculateFromRuns [\<lparr>start_time = 200, end_time = None, machineimage_id = None,
                run_instance_id = 3, instance_type = ''t2.micro'', memory = 4, vcpu = 2\<rparr>]]\<rparr>)"
proof -
  have a: "instance_id \<lparr>instance_id = 3, event_type = power_on, occurred_at = 50\<rparr>
             \<in> instances (store backfill_world)"
    and b: "instance_id \<lparr>instance_id = 3, event_type = power_on, occurred_at = 200\<rparr>
             \<in> instances (store backfill_world)"
    by (simp_all add: example_defs)
  from recalculation_trigger [OF a, of example_externals]
       recalculation_trigger [OF b, of example_externals]
  show ?thesis
    by (simp add: example_defs run_of_def)
qed

text \<open>
  C8. A \<open>power_off\<close> event for which no Run of its instance starts after it, spans it
  or is open at it leaves the world as it was: no Run is created or changed, and neither
  the recalculation nor the usage calculation is called. For a persisted instance the
  function returns normally.
\<close>

theorem stray_power_off_changes_nothing:
  assumes "event_type ev = power_off"
    and "\<not> (\<exists>r \<in> set (runs (store w)). run_instance_id r = instance_id ev \<and>
              (occurred_at ev < start_time r \<or>
               (start_time r \<le> occurred_at ev \<and> (\<exists>e. end_time r = Some e \<and> occurred_at ev < e)) \<or>
               (start_time r \<le> occurred_at ev \<and> end_time r = None)))"
  shows "snd (process_instance_event ext ev w) = w \<and>
         (instance_id ev \<in> instances (store w) \<longrightarrow>
            fst (process_instance_event ext ev w) = Inr ())"
proof -
  have "\<not> (\<exists>r \<in> set (runs (store w)).
                run_instance_id r = instance_id ev \<and> filters (occurred_at ev) r)"
    using assms(2)
    by (auto simp: filters_def after_run_def during_run_def during_run_no_end_def
          split: option.splits)
  with assms(1) show ?thesis by (auto simp: process_instance_event_def)
qed

theorem stray_power_off_changes_nothing_witness:
  "process_instance_event example_externals
        \<lparr>instance_id = 3, event_type = power_off, occurred_at = 200\<rparr> backfill_world
     = (Inr (), backfill_world)"
proof -
  have a: "event_type \<lparr>instance_id = 3, event_type = power_off, occurred_at = 200\<rparr> = power_off"
    by simp
  have b: "\<not> (\<exists>r \<in> set (runs (store backfill_world)).
              run_instance_id r = instance_id \<lparr>instance_id = 3, event_type = power_off, occurred_at = 200\<rparr> \<and>
              (occurred_at \<lparr>instance_id = 3, event_type = power_off, occurred_at = 200\<rparr> < start_time r \<or>
               (start_time r \<le> occurred_at \<lparr>instance_id = 3, event_type = power_off, occurred_at = 200\<rparr>
                  \<and> (\<exists>e. end_time r = Some e \<and> occurred_at \<lparr>instance_id = 3, event_type = power_off, occurred_at = 200\<rparr> < e)) \<or>
               (start_time r \<le> occurred_at \<lparr>instance_id = 3, event_type = power_off, occurred_at = 200\<rparr> \<and> end_time r = None)))"
    by (simp add: example_defs)
  have c: "instance_id \<lparr>instance_id = 3, event_type = power_off, occurred_at = 200\<rparr>
             \<in> instances (store backfill_world)"
    by (simp add: example_defs)
  from stray_power_off_changes_nothing [OF a b, of example_externals] c
  show ?thesis by (simp add: prod_eq_iff)
qed

subsection \<open>The per-user lock\<close>

text \<open>
  Balanced traces compose. One locked deletion leaves the set of busy users alone, holds
  no lock afterwards if none was held before, raises \<open>LockTimeout\<close> without effect
  when the lock of the account's user is busy, and appends a balanced trace. The loop
  over the accounts inherits this.
\<close>

lemma balanced_append:
  "balanced cur es1 \<Longrightarrow> balanced None es2 \<Longrightarrow> balanced cur (es1 @ es2)"
  by (induction cur es1 rule: balanced.induct) auto

lemma locked_delete_frame:
  "busy (snd (lock_task_for_user_ids [account_user_id ca] (delete_one ext ca) w)) = busy w \<and>
   (held w = {} \<longrightarrow>
      held (snd (lock_task_for_user_ids [account_user_id ca] (delete_one ext ca) w)) = {}) \<and>
   (account_user_id ca \<in> busy w \<longrightarrow>
      lock_task_for_user_ids [account_user_id ca] (delete_one ext ca) w = (Inl LockTimeout, w)) \<and>
   (\<exists>es. trace (snd (lock_task_for_user_ids [account_user_id ca] (delete_one ext ca) w))
           = trace w @ es \<and> balanced None es)"
  by (auto simp: delete_defs split: prod.splits sum.splits if_splits)

lemma delete_cloud_accounts_held:
  "held w = {} \<Longrightarrow> held (snd (delete_cloud_accounts ext cas w)) = {}"
proof (induction cas arbitrary: w)
  case Nil
  then show ?case by simp
next
  case (Cons ca cas)
  let ?out = "lock_task_for_user_ids [account_user_id ca] (delete_one ext ca) w"
  have h: "held (snd ?out) = {}" using locked_delete_frame [of ca ext w] Cons.prems by blast
  show ?case
  proof (cases ?out)
    case (Pair r w1)
    with h have "held w1 = {}" by simp
    with Pair Cons.IH [of w1] Cons.prems show ?thesis by (cases r) simp_all
  qed
qed

lemma delete_cloud_accounts_balanced:
  "\<exists>es. trace (snd (delete_cloud_accounts ext cas w)) = trace w @ es \<and> balanced None es"
proof (induction cas arbitrary: w)
  case Nil
  then show ?case by simp
next
  case (Cons ca cas)
  let ?out = "lock_task_for_user_ids [account_user_id ca] (delete_one ext ca) w"
  from locked_delete_frame [of ca ext w]
  obtain es1 where e1: "trace (snd ?out) = trace w @ es1" "balanced None es1" by blast
  show ?case
  proof (cases "account_user_id ca \<in> users (store w)")
    case False
    then show ?thesis by simp
  next
    case True
    show ?thesis
    proof (cases ?out)
      case (Pair r w1)
      show ?thesis
      proof (cases r)
        case (Inl e)
        with Pair True e1 show ?thesis by auto
      next
        case (Inr u)
        from Cons.IH [of w1] obtain es2
          where e2: "trace (snd (delete_cloud_accounts ext cas w1)) = trace w1 @ es2"
            "balanced None es2" by blast
        from e1 Pair have "trace w1 = trace w @ es1" by simp
        with e2 have "trace (snd (delete_cloud_accounts ext cas w1)) = trace w @ (es1 @ es2)"
          by simp
        moreover have "balanced None (es1 @ es2)"
          using e1(2) e2(2) by (rule balanced_append)
        ultimately show ?thesis using Pair Inr True by auto
      qed
    qed
  qed
qed

lemma delete_cloud_accounts_timeout:
  "\<exists>ca \<in> set cas. account_user_id ca \<in> busy w \<Longrightarrow>
     \<exists>e. fst (delete_cloud_accounts ext cas w) = Inl e"
proof (induction cas arbitrary: w)
  case Nil
  then show ?case by simp
next
  case (Cons ca cas)
  let ?out = "lock_task_for_user_ids [account_user_id ca] (delete_one ext ca) w"
  note fr = locked_delete_frame [of ca ext w]
  show ?case
  proof (cases "account_user_id ca \<in> users (store w)")
    case False
    then show ?thesis by simp
  next
    case True
    show ?thesis
    proof (cases ?out)
      case (Pair r w1)
      show ?thesis
      proof (cases r)
        case (Inl e)
        with Pair True show ?thesis by simp
      next
        case (Inr u)
        with Pair fr have nb: "account_user_id ca \<notin> busy w" and b1: "busy w1 = busy w"
          by auto
        with Cons.prems have "\<exists>ca \<in> set cas. account_user_id ca \<in> busy w1" by auto
        from Cons.IH [OF this] Pair Inr True show ?thesis by simp
      qed
    qed
  qed
qed

text \<open>
  C9. An execution that starts without holding a lock ends without holding one, whether
  it returns or raises and whatever the collaborators do, and the lock events it
  appended to the trace are balanced: every acquisition is followed by the release of
  the same lock. This holds for \<^verbatim>\<open>calculate_max_concurrent_usage_task\<close> and for
  \<^verbatim>\<open>_delete_cloud_accounts\<close>. A timeout on acquiring the lock is raised to the
  caller: the task raises \<open>LockTimeout\<close> when the lock of its (existing) user is busy;
  the deletion raises \<open>LockTimeout\<close>, having done nothing, when the lock for its first
  account is busy, and never returns normally when the lock for any of its accounts is
  busy. When the queryset delete for the first account raises an exception other than
  \<^verbatim>\<open>CloudAccount.DoesNotExist\<close>, that exception leaves the loop after the lock
  has been released, and the store is the one before.
\<close>

theorem lock_released_on_every_exit:
  assumes "held w = {}"
  shows "held (snd (calculate_max_concurrent_usage_task ext tid d user w)) = {} \<and>
         balanced None (emitted w (snd (calculate_max_concurrent_usage_task ext tid d user w))) \<and>
         held (snd (delete_cloud_accounts ext cas w)) = {} \<and>
         balanced None (emitted w (snd (delete_cloud_accounts ext cas w))) \<and>
         (user \<in> users (store w) \<and> user \<in> busy w \<longrightarrow>
            fst (calculate_max_concurrent_usage_task ext tid d user w) = Inl LockTimeout) \<and>
         ((\<exists>ca \<in> set cas. account_user_id ca \<in> busy w) \<longrightarrow>
            (\<exists>e. fst (delete_cloud_accounts ext cas w) = Inl e)) \<and>
         (\<forall>ca rest. cas = ca # rest \<and> account_user_id ca \<in> users (store w) \<and>
              account_user_id ca \<in> busy w \<longrightarrow>
            delete_cloud_accounts ext cas w = (Inl LockTimeout, w)) \<and>
         (\<forall>ca rest e. cas = ca # rest \<and> account_user_id ca \<in> users (store w) \<and>
              account_user_id ca \<notin> busy w \<and> account_ref ca \<in> cloud_accounts (store w) \<and>
              fst (queryset_delete ext (account_ref ca) (store w)) = Inl e \<and>
              e \<noteq> CloudAccountDoesNotExist \<longrightarrow>
            delete_cloud_accounts ext cas w =
              (Inl e, w\<lparr>trace := trace w @
                 [Acquire [account_user_id ca], Delete (account_ref ca),
                  Release [account_user_id ca]]\<rparr>))"
proof -
  have a: "held (snd (calculate_max_concurrent_usage_task ext tid d user w)) = {}"
    using assms
    by (auto simp: task_defs split: prod.splits sum.splits option.splits if_splits)
  have a': "balanced None
      (emitted w (snd (calculate_max_concurrent_usage_task ext tid d user w)))"
    by (auto simp: task_defs split: prod.splits sum.splits option.splits if_splits)
  have b: "user \<in> users (store w) \<and> user \<in> busy w \<longrightarrow>
            fst (calculate_max_concurrent_usage_task ext tid d user w) = Inl LockTimeout"
    by (auto simp: task_defs split: prod.splits sum.splits option.splits if_splits)
  have c: "\<forall>ca rest. cas = ca # rest \<and> account_user_id ca \<in> users (store w) \<and>
              account_user_id ca \<in> busy w \<longrightarrow>
            delete_cloud_accounts ext cas w = (Inl LockTimeout, w)"
    using locked_delete_frame by (auto split: prod.splits sum.splits)
  have d: "\<forall>ca rest e. cas = ca # rest \<and> account_user_id ca \<in> users (store w) \<and>
              account_user_id ca \<notin> busy w \<and> account_ref ca \<in> cloud_accounts (store w) \<and>
              fst (queryset_delete ext (account_ref ca) (store w)) = Inl e \<and>
              e \<noteq> CloudAccountDoesNotExist \<longrightarrow>
            delete_cloud_accounts ext cas w =
              (Inl e, w\<lparr>trace := trace w @
                 [Acquire [account_user_id ca], Delete (account_ref ca),
                  Release [account_user_id ca]]\<rparr>)"
    using assms by (auto simp: delete_defs split: prod.splits sum.splits)
  from delete_cloud_accounts_balanced [of ext cas w]
  have e: "balanced None (emitted w (snd (delete_cloud_accounts ext cas w)))"
    by (auto simp: emitted_def)
  from a a' b c d e delete_cloud_accounts_held [OF assms] delete_cloud_accounts_timeout
  show ?thesis by blast
qed

theorem lock_released_on_every_exit_witness:
  "held two_user_contended_world = {} \<and> held two_user_world = {} \<and>
   calculate_max_concurrent_usage_task example_externals ''t9'' 5 1 two_user_contended_world =
     (Inl LockTimeout, two_user_contended_world\<lparr>trace := [UpdateStatus ''t9'' ERROR]\<rparr>) \<and>
   delete_cloud_accounts example_externals (rev two_accounts) two_user_contended_world =
     (Inl LockTimeout, two_user_contended_world) \<and>
   fst (calculate_max_concurrent_usage_task failing_externals ''t1'' 5 1 two_user_world)
     = Inl (OtherException ''boom'') \<and>
   held (snd (calculate_max_concurrent_usage_task failing_externals ''t1'' 5 1 two_user_world))
     = {} \<and>
   emitted two_user_world
     (snd (calculate_max_concurrent_usage_task failing_externals ''t1'' 5 1 two_user_world))
     = [Acquire [1], Calculate 5 1, Release [1], UpdateStatus ''t1'' ERROR] \<and>
   delete_cloud_accounts failing_externals two_accounts two_user_world =
     (Inl (OtherException ''cleanup failed''),
      two_user_world\<lparr>trace := [Acquire [2], Delete 8, Release [2]]\<rparr>)"
proof -
  have h1: "held two_user_contended_world = {}" and h2: "held two_user_world = {}"
    by (simp_all add: example_defs)
  from lock_released_on_every_exit
         [OF h1, of example_externals "''t9''" 5 1 "rev two_accounts"]
       lock_released_on_every_exit
         [OF h2, of failing_externals "''t1''" 5 1 two_accounts]
       h1 h2
  show ?thesis
    by (simp add: task_defs delete_defs example_defs)
qed



end
